theory Spec2Isabelle
  imports Complex_Main
begin

section \<open>Values shared by the client, the worker and the guide's templates\<close>

text \<open>
  JSON values as \<^verbatim>\<open>JSON.parse\<close> and \<^verbatim>\<open>res.json()\<close> deliver them. An object is the
  list of its members in order; \<^verbatim>\<open>JSON.parse\<close> never yields two members with one key.
\<close>

datatype json =
    JNull
  | JBool bool
  | JNum real
  | JStr string
  | JArr "json list"
  | JObj "(string \<times> json) list"

text \<open>
  What a \<^verbatim>\<open>catch\<close> can receive: an \<^verbatim>\<open>Error\<close> instance (also the built-in subclasses
  \<^verbatim>\<open>TypeError\<close> of a failed \<^verbatim>\<open>fetch\<close> and \<^verbatim>\<open>SyntaxError\<close> of a failed parse) with its
  message, the services layer's \<^verbatim>\<open>ApiError\<close> with its status and message, or a thrown value
  that is no \<^verbatim>\<open>Error\<close>, given by its \<^verbatim>\<open>String()\<close> conversion.
\<close>

datatype js_error =
    Error string
  | ApiError nat string
  | Thrown string

text \<open>
  A property of an options object: the key may be absent, present with the value
  \<^verbatim>\<open>undefined\<close>, or present with a value. Object spread copies the last two.
\<close>

datatype 'a property = Absent | Undefined | Value 'a

text \<open>
  A \<^verbatim>\<open>File\<close>: its media type, and the outcome of
  \<^verbatim>\<open>Buffer.from(await f.arrayBuffer()).toString("base64")\<close>, which is the rejection of
  \<^verbatim>\<open>arrayBuffer()\<close> or the encoded content.
\<close>

record js_file =
  file_name :: string
  file_type :: string
  file_base64 :: "js_error + string"

text \<open>
  \<^verbatim>\<open>FormData\<close>: the entries in insertion order. \<^verbatim>\<open>append\<close> adds at the end and turns a
  value that is neither a \<^verbatim>\<open>Blob\<close> nor a string into its string conversion, so
  \<^verbatim>\<open>undefined\<close> becomes the string \<^verbatim>\<open>"undefined"\<close>; \<^verbatim>\<open>get\<close> returns the first entry
  of a name, or \<^verbatim>\<open>null\<close>.
\<close>

datatype form_value = FFile js_file | FString string

type_synonym form_data = "(string \<times> form_value) list"

definition append_file :: "form_data \<Rightarrow> string \<Rightarrow> js_file option \<Rightarrow> form_data" where
  "append_file fd name v =
     fd @ [(name, case v of None \<Rightarrow> FString ''undefined'' | Some f \<Rightarrow> FFile f)]"

definition append_string :: "form_data \<Rightarrow> string \<Rightarrow> string \<Rightarrow> form_data" where
  "append_string fd name s = fd @ [(name, FString s)]"

definition form_get :: "form_data \<Rightarrow> string \<Rightarrow> form_value option" where
  "form_get fd name = map_of fd name"

text \<open>Decimal digits of a number, as a template literal prints a status.\<close>

definition digit :: "nat \<Rightarrow> char" where
  "digit d = ''0123456789'' ! d"

function digits :: "nat \<Rightarrow> string" where
  "digits n =
     (if n < 10 then [digit n]
      else digits (n div 10) @ [digit (n mod 10)])"
  by pat_completeness auto
termination
  by (relation "measure (\<lambda>n. n)") auto

declare digits.simps [simp del]

definition show_nat :: "nat \<Rightarrow> string" where
  "show_nat n = digits n"


section \<open>The services layer of the frontend (services/api.ts)\<close>

text \<open>
  \<^verbatim>\<open>RequestInit\<close>, with the keys this repository passes to \<^verbatim>\<open>fetch\<close>. Headers are in
  the record form, a mapping from header name to value.
\<close>

record request_init =
  init_method :: "string property"
  headers :: "(string \<rightharpoonup> string) property"
  body :: "form_data property"

text \<open>
  The \<^verbatim>\<open>Response\<close> that \<^verbatim>\<open>fetch\<close> resolves to: the status, and the outcomes of reading
  the body with \<^verbatim>\<open>text()\<close> and with \<^verbatim>\<open>json()\<close> (each may reject). \<^verbatim>\<open>ok\<close> is the Fetch
  standard's: the status is in the range 200 to 299.
\<close>

record response =
  status :: nat
  body_text :: "js_error + string"
  body_json :: "js_error + json"

definition ok :: "response \<Rightarrow> bool" where
  "ok res = (200 \<le> status res \<and> status res \<le> 299)"

text \<open>
  \<^verbatim>\<open>fetch\<close> is the platform's: given the URL and the init object it rejects (a
  connection-level failure) or resolves to a response, whatever the status. Every client
  function returns its outcome together with the list of requests it dispatched.
\<close>

type_synonym fetch_fn = "string \<Rightarrow> request_init \<Rightarrow> js_error + response"

type_synonym 'a traced = "(js_error + 'a) \<times> (string \<times> request_init) list"

definition API_BASE :: string where
  "API_BASE = ''/api''"

text \<open>\<^verbatim>\<open>options?.headers\<close>, spread into an object literal: nothing when it is undefined.\<close>

definition options_headers :: "request_init option \<Rightarrow> (string \<rightharpoonup> string)" where
  "options_headers options =
     (case options of
        None \<Rightarrow> Map.empty
      | Some opts \<Rightarrow> (case headers opts of Value h \<Rightarrow> h | _ \<Rightarrow> Map.empty))"

text \<open>One key of \<^verbatim>\<open>{ ...base, ...over }\<close>: the later object wins wherever it has the key.\<close>

fun spread_key :: "'a property \<Rightarrow> 'a property \<Rightarrow> 'a property" where
  "spread_key base Absent = base"
| "spread_key base over = over"

definition spread :: "request_init \<Rightarrow> request_init option \<Rightarrow> request_init" where
  "spread base options =
     (case options of
        None \<Rightarrow> base
      | Some opts \<Rightarrow>
          \<lparr> init_method = spread_key (init_method base) (init_method opts),
            headers = spread_key (headers base) (headers opts),
            body = spread_key (body base) (body opts) \<rparr>)"

text \<open>
  The init object of \<^verbatim>\<open>request\<close>:
  \<^verbatim>\<open>{ headers: { "Content-Type": "application/json", ...options?.headers }, ...options }\<close>.
\<close>

definition request_init_of :: "request_init option \<Rightarrow> request_init" where
  "request_init_of options =
     spread
       \<lparr> init_method = Absent,
         headers = Value ([''Content-Type'' \<mapsto> ''application/json''] ++ options_headers options),
         body = Absent \<rparr>
       options"

text \<open>
  The check every client function makes on the response: a status outside 200 to 299
  throws \<^verbatim>\<open>ApiError\<close> with the status and the body text, or with
  \<^verbatim>\<open>`API error: ${res.status}`\<close> when reading the text rejects; otherwise the body parsed
  as JSON is returned (and a rejection of \<^verbatim>\<open>res.json()\<close> propagates).
\<close>

definition check_response :: "response \<Rightarrow> js_error + json" where
  "check_response res =
     (if \<not> ok res then
        (let message = (case body_text res of
                          Inr t \<Rightarrow> t
                        | Inl _ \<Rightarrow> ''API error: '' @ show_nat (status res))
         in Inl (ApiError (status res) message))
      else body_json res)"

definition request :: "fetch_fn \<Rightarrow> string \<Rightarrow> request_init option \<Rightarrow> json traced" where
  "request fetch endpoint options =
     (let url = API_BASE @ endpoint; init = request_init_of options
      in (case fetch url init of
            Inl e \<Rightarrow> (Inl e, [(url, init)])
          | Inr res \<Rightarrow> (check_response res, [(url, init)])))"

definition api_main :: "fetch_fn \<Rightarrow> json traced" where
  "api_main fetch = request fetch ''/'' None"

definition api_products :: "fetch_fn \<Rightarrow> json traced" where
  "api_products fetch = request fetch ''/products/'' None"

definition api_discovery :: "fetch_fn \<Rightarrow> json traced" where
  "api_discovery fetch = request fetch ''/discovery/'' None"

definition api_chat :: "fetch_fn \<Rightarrow> json traced" where
  "api_chat fetch = request fetch ''/chat/'' None"

definition analyzeImage :: "fetch_fn \<Rightarrow> js_file \<Rightarrow> json traced" where
  "analyzeImage fetch f =
     (let formData = append_file [] ''image'' (Some f);
          url = API_BASE @ ''/vision/analyze'';
          init = \<lparr> init_method = Value ''POST'', headers = Absent, body = Value formData \<rparr>
      in (case fetch url init of
            Inl e \<Rightarrow> (Inl e, [(url, init)])
          | Inr res \<Rightarrow> (check_response res, [(url, init)])))"

text \<open>
  Reading \<^verbatim>\<open>xs[i]\<close> of an array: the element, or \<^verbatim>\<open>undefined\<close> (here \<open>None\<close>) when
  \<open>i\<close> is not an index of it. A \<^verbatim>\<open>File\<close> is an object, so \<^verbatim>\<open>if (productImages[1])\<close>
  holds exactly when the read yields an element.
\<close>

definition index :: "'a list \<Rightarrow> nat \<Rightarrow> 'a option" where
  "index xs i = (if i < length xs then Some (xs ! i) else None)"

definition generateImage_form :: "js_file \<Rightarrow> js_file list \<Rightarrow> string \<Rightarrow> form_data" where
  "generateImage_form userImage productImages prompt =
     (let formData = append_file [] ''userImage'' (Some userImage);
          formData = append_file formData ''productImage1'' (index productImages 0);
          formData = (case index productImages 1 of
                        Some p \<Rightarrow> append_file formData ''productImage2'' (Some p)
                      | None \<Rightarrow> formData)
      in append_string formData ''prompt'' prompt)"

definition generateImage :: "fetch_fn \<Rightarrow> js_file \<Rightarrow> js_file list \<Rightarrow> string \<Rightarrow> json traced" where
  "generateImage fetch userImage productImages prompt =
     (let formData = generateImage_form userImage productImages prompt;
          url = API_BASE @ ''/nano-banana/generate'';
          init = \<lparr> init_method = Value ''POST'', headers = Absent, body = Value formData \<rparr>
      in (case fetch url init of
            Inl e \<Rightarrow> (Inl e, [(url, init)])
          | Inr res \<Rightarrow> (check_response res, [(url, init)])))"

text \<open>
  The value of a header in a dispatched init object, \<open>None\<close> when the request carries no
  such header; the same for the caller's options; and the init object of a call without
  options.
\<close>

definition header_of :: "request_init \<Rightarrow> string \<Rightarrow> string option" where
  "header_of init name = (case headers init of Value h \<Rightarrow> h name | _ \<Rightarrow> None)"

definition options_header :: "request_init option \<Rightarrow> string \<Rightarrow> string option" where
  "options_header options name =
     (case options of None \<Rightarrow> None | Some opts \<Rightarrow> header_of opts name)"

definition default_init :: request_init where
  "default_init =
     \<lparr> init_method = Absent,
       headers = Value [''Content-Type'' \<mapsto> ''application/json''],
       body = Absent \<rparr>"


section \<open>The worker (worker/index.ts and its sub-applications)\<close>

text \<open>A response built by \<^verbatim>\<open>c.json(obj, status)\<close> or \<^verbatim>\<open>c.text(s, status)\<close>.\<close>

datatype resp_body = Json json | Text string

record http_response =
  http_status :: nat
  http_body :: resp_body

definition c_json :: "json \<Rightarrow> nat \<Rightarrow> http_response" where
  "c_json obj st = \<lparr> http_status = st, http_body = Json obj \<rparr>"

definition error_body :: "string \<Rightarrow> json" where
  "error_body msg = JObj [(''error'', JStr msg)]"

text \<open>\<^verbatim>\<open>error instanceof Error ? error.message : String(error)\<close>\<close>

fun details :: "js_error \<Rightarrow> string" where
  "details (Error m) = m"
| "details (ApiError st m) = m"
| "details (Thrown s) = s"

text \<open>The bindings the handlers read from \<^verbatim>\<open>c.env\<close>; \<open>None\<close> is an unset variable.\<close>

record worker_env =
  GEMINI_API_KEY :: "string option"
  GOOGLE_CREDENTIALS :: "string option"

text \<open>\<^verbatim>\<open>v && v instanceof File\<close>, and \<^verbatim>\<open>v && typeof v === "string"\<close> (the empty string is falsy).\<close>

fun as_file :: "form_value option \<Rightarrow> js_file option" where
  "as_file (Some (FFile f)) = Some f"
| "as_file _ = None"

fun as_string :: "form_value option \<Rightarrow> string option" where
  "as_string (Some (FString s)) = (if s = [] then None else Some s)"
| "as_string _ = None"

text \<open>
  An optional string that is truthy: set and not empty. \<^verbatim>\<open>!s\<close> holds exactly when it is
  \<open>None\<close>, and \<^verbatim>\<open>s || fallback\<close> is the fallback then.
\<close>

definition truthy_string :: "string option \<Rightarrow> string option" where
  "truthy_string s = (case s of None \<Rightarrow> None | Some t \<Rightarrow> if t = [] then None else Some t)"

definition or_else :: "string option \<Rightarrow> string \<Rightarrow> string" where
  "or_else s fallback = (case truthy_string s of None \<Rightarrow> fallback | Some t \<Rightarrow> t)"

subsection \<open>worker/nano-banana.ts\<close>

text \<open>
  The parts sent to the Gemini SDK, and the parts of its answer that the handler reads
  (every field may be missing). \<^verbatim>\<open>generateContent\<close> is the SDK's: given the API key
  (with which the client is constructed), the model name and the contents it throws or
  returns a response. The handler returns its response together with the list of calls it
  made to the SDK.
\<close>

datatype content_part = InlineData string string | TextPart string

record inline_data =
  data :: "string option"
  mimeType :: "string option"

record part =
  inlineData :: "inline_data option"

record content =
  parts :: "part list option"

record candidate =
  content :: "content option"

record generate_response =
  candidates :: "candidate list option"

type_synonym gemini_call = "string \<times> string \<times> content_part list"

type_synonym gemini_fn = "string \<Rightarrow> string \<Rightarrow> content_part list \<Rightarrow> js_error + generate_response"

definition generate_failed :: "js_error \<Rightarrow> http_response" where
  "generate_failed error =
     c_json (JObj [(''error'', JStr ''Failed to generate image''),
                   (''details'', JStr (details error))]) 500"

definition inline_part :: "js_file \<Rightarrow> string \<Rightarrow> content_part" where
  "inline_part f base64 = InlineData (or_else (Some (file_type f)) ''image/jpeg'') base64"

text \<open>The loop over the parts of the first candidate: the first part with inline data.\<close>

fun find_image :: "part list \<Rightarrow> (string \<times> string) option" where
  "find_image [] = None"
| "find_image (p # ps) =
     (case inlineData p of
        None \<Rightarrow> find_image ps
      | Some i \<Rightarrow>
          (case data i of
             None \<Rightarrow> find_image ps
           | Some d \<Rightarrow>
               if d = [] then find_image ps
               else Some (d, or_else (mimeType i) ''image/png'')))"

definition no_image_generated :: http_response where
  "no_image_generated = c_json (error_body ''No image generated in response'') 500"

definition extract_image :: "generate_response \<Rightarrow> http_response" where
  "extract_image response =
     (case candidates response of
        None \<Rightarrow> no_image_generated
      | Some [] \<Rightarrow> no_image_generated
      | Some (c # cs) \<Rightarrow>
          (case content c of
             None \<Rightarrow> no_image_generated
           | Some ct \<Rightarrow>
               (case parts ct of
                  None \<Rightarrow> no_image_generated
                | Some ps \<Rightarrow>
                    (case find_image ps of
                       None \<Rightarrow> c_json (error_body ''No image data found in response'') 500
                     | Some (generatedImageData, mime) \<Rightarrow>
                         c_json (JObj [(''generatedImage'', JStr generatedImageData),
                                       (''mimeType'', JStr mime)]) 200))))"

text \<open>
  The content parts: the user image, the first product image, the second one if the form
  has it as a file, then the prompt. Reading a file may throw.
\<close>

definition content_parts ::
  "js_file \<Rightarrow> js_file \<Rightarrow> form_value option \<Rightarrow> string \<Rightarrow> js_error + content_part list" where
  "content_parts userImage productImage1 productImage2 prompt =
     (case file_base64 userImage of
        Inl e \<Rightarrow> Inl e
      | Inr userImageBase64 \<Rightarrow>
          (case file_base64 productImage1 of
             Inl e \<Rightarrow> Inl e
           | Inr product1Base64 \<Rightarrow>
               (let contentParts = [inline_part userImage userImageBase64,
                                    inline_part productImage1 product1Base64]
                in (case as_file productImage2 of
                      None \<Rightarrow> Inr (contentParts @ [TextPart prompt])
                    | Some p2 \<Rightarrow>
                        (case file_base64 p2 of
                           Inl e \<Rightarrow> Inl e
                         | Inr product2Base64 \<Rightarrow>
                             Inr (contentParts @ [inline_part p2 product2Base64]
                                    @ [TextPart prompt]))))))"

text \<open>The handler of \<^verbatim>\<open>POST /generate\<close>, given the outcome of \<^verbatim>\<open>c.req.formData()\<close>.\<close>

definition generate ::
  "gemini_fn \<Rightarrow> worker_env \<Rightarrow> js_error + form_data \<Rightarrow> http_response \<times> gemini_call list" where
  "generate generateContent env req_formData =
     (case req_formData of
        Inl error \<Rightarrow> (generate_failed error, [])
      | Inr formData \<Rightarrow>
          (case as_file (form_get formData ''userImage'') of
             None \<Rightarrow> (c_json (error_body ''User image is required'') 400, [])
           | Some userImage \<Rightarrow>
          (case as_file (form_get formData ''productImage1'') of
             None \<Rightarrow> (c_json (error_body ''At least one product image is required'') 400, [])
           | Some productImage1 \<Rightarrow>
          (case as_string (form_get formData ''prompt'') of
             None \<Rightarrow> (c_json (error_body ''Prompt text is required'') 400, [])
           | Some prompt \<Rightarrow>
          (case truthy_string (GEMINI_API_KEY env) of
             None \<Rightarrow> (c_json (error_body ''Gemini API key not configured'') 500, [])
           | Some apiKey \<Rightarrow>
          (case content_parts userImage productImage1
                  (form_get formData ''productImage2'') prompt of
             Inl error \<Rightarrow> (generate_failed error, [])
           | Inr contentParts \<Rightarrow>
               (let call = (apiKey, ''gemini-2.5-flash-image'', contentParts)
                in (case generateContent apiKey ''gemini-2.5-flash-image'' contentParts of
                      Inl error \<Rightarrow> (generate_failed error, [call])
                    | Inr response \<Rightarrow> (extract_image response, [call])))))))))"

subsection \<open>The vision sub-application\<close>

text \<open>
  What the handler reads of the Vision API's annotation result; every field may be
  missing. \<^verbatim>\<open>annotateImage\<close> is the SDK's (given the parsed credentials, with which the
  client is constructed, and the encoded image), \<^verbatim>\<open>JSON.parse\<close> the platform's.
\<close>

record vertex =
  vertex_x :: "real option"
  vertex_y :: "real option"

record localized_object =
  obj_name :: "string option"
  obj_score :: "real option"
  obj_normalizedVertices :: "vertex list option"

record label_annotation =
  label_description :: "string option"
  label_score :: "real option"

record annotate_result =
  localizedObjectAnnotations :: "localized_object list option"
  labelAnnotations :: "label_annotation list option"

type_synonym parse_fn = "string \<Rightarrow> js_error + json"

type_synonym vision_fn = "json \<Rightarrow> string \<Rightarrow> js_error + annotate_result"

text \<open>\<^verbatim>\<open>n || 0\<close> on an optional number, and \<^verbatim>\<open>xs || []\<close> on an optional array.\<close>

definition or_zero :: "real option \<Rightarrow> real" where
  "or_zero n = (case n of None \<Rightarrow> 0 | Some r \<Rightarrow> r)"

definition or_nil :: "'a list option \<Rightarrow> 'a list" where
  "or_nil xs = (case xs of None \<Rightarrow> [] | Some ys \<Rightarrow> ys)"

definition format_vertex :: "vertex \<Rightarrow> json" where
  "format_vertex v =
     JObj [(''x'', JNum (or_zero (vertex_x v))), (''y'', JNum (or_zero (vertex_y v)))]"

definition format_object :: "localized_object \<Rightarrow> json" where
  "format_object obj =
     JObj [(''name'', JStr (or_else (obj_name obj) ''Unknown'')),
           (''confidence'', JNum (or_zero (obj_score obj))),
           (''boundingPoly'',
              JObj [(''normalizedVertices'',
                     JArr (map format_vertex (or_nil (obj_normalizedVertices obj))))])]"

definition format_label :: "label_annotation \<Rightarrow> json" where
  "format_label label =
     JObj [(''description'', JStr (or_else (label_description label) ''Unknown'')),
           (''confidence'', JNum (or_zero (label_score label)))]"

definition analyze_failed :: "js_error \<Rightarrow> http_response" where
  "analyze_failed error =
     c_json (JObj [(''error'', JStr ''Failed to analyze image''),
                   (''details'', JStr (details error))]) 500"

text \<open>The handler of \<^verbatim>\<open>POST /analyze\<close>, given the outcome of \<^verbatim>\<open>c.req.formData()\<close>.\<close>

definition analyze ::
  "parse_fn \<Rightarrow> vision_fn \<Rightarrow> worker_env \<Rightarrow> js_error + form_data \<Rightarrow> http_response" where
  "analyze JSON_parse annotateImage env req_formData =
     (case req_formData of
        Inl error \<Rightarrow> analyze_failed error
      | Inr formData \<Rightarrow>
          (case as_file (form_get formData ''image'') of
             None \<Rightarrow> c_json (error_body ''No image file provided'') 400
           | Some imageFile \<Rightarrow>
          (case file_base64 imageFile of
             Inl error \<Rightarrow> analyze_failed error
           | Inr base64 \<Rightarrow>
          (case truthy_string (GOOGLE_CREDENTIALS env) of
             None \<Rightarrow> c_json (error_body ''Google credentials not configured'') 500
           | Some credentialsJson \<Rightarrow>
          (case JSON_parse credentialsJson of
             Inl error \<Rightarrow> analyze_failed error
           | Inr credentials \<Rightarrow>
          (case annotateImage credentials base64 of
             Inl error \<Rightarrow> analyze_failed error
           | Inr result \<Rightarrow>
               c_json (JObj [(''objects'',
                               JArr (map format_object (or_nil (localizedObjectAnnotations result)))),
                             (''labels'',
                               JArr (map format_label (or_nil (labelAnnotations result))))])
                      200))))))"

subsection \<open>worker/index.ts: the routes\<close>

text \<open>
  A route is a method, a path and a handler. The sub-applications \<^verbatim>\<open>products\<close>,
  \<^verbatim>\<open>discovery\<close> and \<^verbatim>\<open>chat\<close> answer \<^verbatim>\<open>GET /\<close> with a fixed JSON object;
  \<^verbatim>\<open>app.route(base, sub)\<close> mounts each route of \<open>sub\<close> at the framework's
  \<^verbatim>\<open>mergePath(base, path)\<close>. The framework matches the method and the whole path
  (a trailing slash counts) and answers \<^verbatim>\<open>404 Not Found\<close> as text when no route matches.
  The logger middleware only writes to the console.
\<close>

datatype verb = GET | POST

datatype handler = Static json | Generate

type_synonym routes = "(verb \<times> string \<times> handler) list"

record http_request =
  req_method :: verb
  req_path :: string
  req_formData :: "js_error + form_data"

definition products :: routes where
  "products = [(GET, ''/'', Static (JObj [(''message'', JStr ''So many products!'')]))]"

definition discovery :: routes where
  "discovery = [(GET, ''/'', Static (JObj [(''message'', JStr ''Lets discover!'')]))]"

definition chat :: routes where
  "chat = [(GET, ''/'', Static (JObj [(''message'', JStr ''Lets chat!'')]))]"

definition nanoBanana :: routes where
  "nanoBanana = [(POST, ''/generate'', Generate)]"

definition mergePath :: "string \<Rightarrow> string \<Rightarrow> string" where
  "mergePath base sub =
     (if take 1 base = ''/'' then [] else ''/'') @ base @
     (if sub = ''/'' then []
      else (if base \<noteq> [] \<and> last base = CHR ''/'' then [] else ''/'') @
           (if take 1 sub = ''/'' then drop 1 sub else sub))"

definition route :: "string \<Rightarrow> routes \<Rightarrow> routes" where
  "route base sub = map (\<lambda>(m, p, h). (m, mergePath (mergePath ''/'' base) p, h)) sub"

definition app_routes :: routes where
  "app_routes =
     route ''/api/products/'' products @
     route ''/api/discovery/'' discovery @
     route ''/api/chat/'' chat @
     route ''/api/nano-banana/'' nanoBanana @
     [(GET, mergePath ''/'' ''/api/'', Static (JObj [(''name'', JStr ''Goto Demo API'')]))]"

definition notFound :: http_response where
  "notFound = \<lparr> http_status = 404, http_body = Text ''404 Not Found'' \<rparr>"

definition app :: "gemini_fn \<Rightarrow> worker_env \<Rightarrow> http_request \<Rightarrow> http_response \<times> gemini_call list" where
  "app generateContent env req =
     (case find (\<lambda>(m, p, h). m = req_method req \<and> p = req_path req) app_routes of
        None \<Rightarrow> (notFound, [])
      | Some (m, p, Static obj) \<Rightarrow> (c_json obj 200, [])
      | Some (m, p, Generate) \<Rightarrow> generate generateContent env (req_formData req))"


section \<open>The integration guide's client templates\<close>

text \<open>
  Reading a property of a parsed JSON value: a \<^verbatim>\<open>TypeError\<close> on \<^verbatim>\<open>null\<close>, the member of
  an object, and \<^verbatim>\<open>undefined\<close> (here \<open>None\<close>) otherwise. Truthiness is JavaScript's.
\<close>

fun get_prop :: "json \<Rightarrow> string \<Rightarrow> js_error + json option" where
  "get_prop JNull k = Inl (Error ''Cannot read properties of null'')"
| "get_prop (JObj members) k = Inr (map_of members k)"
| "get_prop v k = Inr None"

fun truthy :: "json option \<Rightarrow> bool" where
  "truthy None = False"
| "truthy (Some JNull) = False"
| "truthy (Some (JBool b)) = b"
| "truthy (Some (JNum n)) = (n \<noteq> 0)"
| "truthy (Some (JStr s)) = (s \<noteq> [])"
| "truthy (Some v) = True"

text \<open>\<^verbatim>\<open>v || fallback\<close>\<close>

definition or_default :: "json option \<Rightarrow> json \<Rightarrow> json" where
  "or_default v fallback =
     (case v of None \<Rightarrow> fallback | Some j \<Rightarrow> if truthy (Some j) then j else fallback)"

subsection \<open>The error handling template: makeRequest\<close>

text \<open>
  What \<^verbatim>\<open>makeRequest\<close> hands to its caller: the parsed body, \<^verbatim>\<open>undefined\<close> when the loop
  ends without a \<^verbatim>\<open>return\<close>, an error of the platform thrown again, or
  \<^verbatim>\<open>new Error(v)\<close> made by the template itself (\<open>v\<close> is the argument, a string in all
  cases but a non-string \<^verbatim>\<open>error.error\<close>).
\<close>

datatype thrown = Rethrown js_error | NewError json

datatype outcome = Return json | ReturnUndefined | Throw thrown

text \<open>
  One pass through the \<^verbatim>\<open>try\<close> block, given what \<^verbatim>\<open>fetch\<close> does at this attempt: the
  branch for a status of 500 or more (which sleeps and continues inside the block), a
  \<^verbatim>\<open>return\<close>, or an exception, which the \<^verbatim>\<open>catch\<close> of the same iteration receives
  whether \<^verbatim>\<open>fetch\<close> or \<^verbatim>\<open>response.json()\<close> raised it or the block threw it itself.
\<close>

datatype try_result = ServerError | Returned json | Raised thrown

definition try_block :: "js_error + response \<Rightarrow> try_result" where
  "try_block fetched =
     (case fetched of
        Inl e \<Rightarrow> Raised (Rethrown e)
      | Inr response \<Rightarrow>
          if \<not> ok response then
            if status response \<ge> 500 then ServerError
            else if status response = 401 \<or> status response = 403 then
              Raised (NewError (JStr ''Authentication failed''))
            else
              (case body_json response of
                 Inl e \<Rightarrow> Raised (Rethrown e)
               | Inr error \<Rightarrow>
                   (case get_prop error ''error'' of
                      Inl e \<Rightarrow> Raised (Rethrown e)
                    | Inr v \<Rightarrow> Raised (NewError (or_default v (JStr ''Request failed'')))))
          else
            (case body_json response of
               Inl e \<Rightarrow> Raised (Rethrown e)
             | Inr j \<Rightarrow> Returned j))"

definition maxRetries :: nat where
  "maxRetries = 3"

text \<open>
  The loop. \<open>net i\<close> is what \<^verbatim>\<open>fetch\<close> does at its \<open>i\<close>-th call (from 0); the state is
  the variable \<^verbatim>\<open>attempt\<close>, the number of calls made and the delays slept so far, in
  milliseconds. The result is the outcome with the number of calls and the delays.
\<close>

function makeRequest_loop ::
  "(nat \<Rightarrow> js_error + response) \<Rightarrow> nat \<Rightarrow> nat \<Rightarrow> nat list \<Rightarrow> outcome \<times> nat \<times> nat list" where
  "makeRequest_loop net attempt calls sleeps =
     (if attempt < maxRetries then
        (case try_block (net calls) of
           ServerError \<Rightarrow>
             makeRequest_loop net (attempt + 1) (calls + 1)
               (sleeps @ [2 ^ (attempt + 1) * 1000])
         | Returned j \<Rightarrow> (Return j, calls + 1, sleeps)
         | Raised error \<Rightarrow>
             if attempt \<ge> maxRetries - 1 then (Throw error, calls + 1, sleeps)
             else makeRequest_loop net (attempt + 1) (calls + 1)
                    (sleeps @ [2 ^ (attempt + 1) * 1000]))
      else (ReturnUndefined, calls, sleeps))"
  by pat_completeness auto
termination
  by (relation "measure (\<lambda>(net, attempt, calls, sleeps). maxRetries - attempt)") auto

declare makeRequest_loop.simps [simp del]

definition makeRequest :: "(nat \<Rightarrow> js_error + response) \<Rightarrow> outcome \<times> nat \<times> nat list" where
  "makeRequest net = makeRequest_loop net 0 0 []"

definition attempts :: "outcome \<times> nat \<times> nat list \<Rightarrow> nat" where
  "attempts r = fst (snd r)"

definition delays :: "outcome \<times> nat \<times> nat list \<Rightarrow> nat list" where
  "delays r = snd (snd r)"

subsection \<open>The streaming template: streamChat\<close>

text \<open>\<^verbatim>\<open>chunk.split('\n')\<close>: the pieces between the separators, at least one.\<close>

fun split :: "char \<Rightarrow> string \<Rightarrow> string list" where
  "split sep [] = [[]]"
| "split sep (c # cs) =
     (if c = sep then [] # split sep cs
      else (case split sep cs of
              piece # pieces \<Rightarrow> (c # piece) # pieces
            | [] \<Rightarrow> [[c]]))"

text \<open>
  What the template shows for a frame: the text of a chunk on standard output, the
  end-of-stream line, or the message of an error frame on the error console.
\<close>

datatype event = Stdout string | ConsoleLog string | ConsoleError "json option"

text \<open>
  The body of the \<^verbatim>\<open>for\<close> loop on one line. \<^verbatim>\<open>process.stdout.write\<close> takes a string and
  throws a \<^verbatim>\<open>TypeError\<close> on any other JSON value.
\<close>

definition handle_line :: "parse_fn \<Rightarrow> string \<Rightarrow> js_error + event list" where
  "handle_line JSON_parse line =
     (if take 6 line = ''data: '' then
        (case JSON_parse (drop 6 line) of
           Inl e \<Rightarrow> Inl e
         | Inr d \<Rightarrow>
             (case get_prop d ''type'' of
                Inl e \<Rightarrow> Inl e
              | Inr t \<Rightarrow>
                  if t = Some (JStr ''response-chunk'') then
                    (case get_prop d ''data'' of
                       Inr (Some (JStr s)) \<Rightarrow> Inr [Stdout s]
                     | Inr other \<Rightarrow> Inl (Error ''ERR_INVALID_ARG_TYPE'')
                     | Inl e \<Rightarrow> Inl e)
                  else if t = Some (JStr ''end'') then
                    Inr [ConsoleLog (CHR ''\<newline>'' # ''[Stream ended]'')]
                  else if t = Some (JStr ''error'') then
                    (case get_prop d ''message'' of
                       Inr m \<Rightarrow> Inr [ConsoleError m]
                     | Inl e \<Rightarrow> Inl e)
                  else Inr []))
      else Inr [])"

text \<open>The \<^verbatim>\<open>for\<close> loop over the lines of a chunk: the events shown, and the exception if one ends it.\<close>

fun handle_lines :: "parse_fn \<Rightarrow> string list \<Rightarrow> event list \<times> js_error option" where
  "handle_lines JSON_parse [] = ([], None)"
| "handle_lines JSON_parse (line # rest) =
     (case handle_line JSON_parse line of
        Inl e \<Rightarrow> ([], Some e)
      | Inr evs \<Rightarrow>
          (case handle_lines JSON_parse rest of
             (evs', r) \<Rightarrow> (evs @ evs', r)))"

text \<open>
  The \<^verbatim>\<open>while\<close> loop over the reads of the body: each read rejects or delivers a chunk
  (here already decoded to text), and the end of the list is \<^verbatim>\<open>done\<close>.
\<close>

fun read_loop :: "parse_fn \<Rightarrow> (js_error + string) list \<Rightarrow> event list \<times> js_error option" where
  "read_loop JSON_parse [] = ([], None)"
| "read_loop JSON_parse (Inl e # rest) = ([], Some e)"
| "read_loop JSON_parse (Inr chunk # rest) =
     (case handle_lines JSON_parse (split (CHR ''\<newline>'') chunk) of
        (evs, Some e) \<Rightarrow> (evs, Some e)
      | (evs, None) \<Rightarrow>
          (case read_loop JSON_parse rest of
             (evs', r) \<Rightarrow> (evs @ evs', r)))"

text \<open>\<^verbatim>\<open>streamChat\<close>, given what \<^verbatim>\<open>fetch\<close> does: it rejects, or the body delivers the reads.\<close>

definition streamChat ::
  "parse_fn \<Rightarrow> js_error + (js_error + string) list \<Rightarrow> event list \<times> js_error option" where
  "streamChat JSON_parse fetched =
     (case fetched of
        Inl e \<Rightarrow> ([], Some e)
      | Inr reads \<Rightarrow> read_loop JSON_parse reads)"


section \<open>Inputs of the examples, and notions used in the statements\<close>

definition not_found_response :: response where
  "not_found_response =
     \<lparr> status = 404, body_text = Inr ''404 Not Found'',
       body_json = Inl (Error ''Unexpected non-whitespace character after JSON'') \<rparr>"

definition unreadable_response :: response where
  "unreadable_response =
     \<lparr> status = 503, body_text = Inl (Error ''terminated''),
       body_json = Inl (Error ''terminated'') \<rparr>"

definition fetch_always :: "response \<Rightarrow> fetch_fn" where
  "fetch_always res = (\<lambda>url init. Inr res)"

definition fetch_refused :: fetch_fn where
  "fetch_refused = (\<lambda>url init. Inl (Error ''Failed to fetch''))"

definition room :: js_file where
  "room = \<lparr> file_name = ''room.jpg'', file_type = ''image/jpeg'', file_base64 = Inr ''/9j/4AAQ'' \<rparr>"

definition blinds :: js_file where
  "blinds = \<lparr> file_name = ''blinds.png'', file_type = ''image/png'', file_base64 = Inr ''iVBORw0K'' \<rparr>"

definition drapes :: js_file where
  "drapes = \<lparr> file_name = ''drapes'', file_type = [], file_base64 = Inr ''R0lGODlh'' \<rparr>"

definition accept_header_only :: request_init where
  "accept_header_only =
     \<lparr> init_method = Absent, headers = Value [''Accept'' \<mapsto> ''text/plain''], body = Absent \<rparr>"

definition post_only :: request_init where
  "post_only = \<lparr> init_method = Value ''POST'', headers = Absent, body = Absent \<rparr>"

definition unavailable_twice :: "nat \<Rightarrow> js_error + response" where
  "unavailable_twice i =
     (if i < 2 then Inr \<lparr> status = 503, body_text = Inr ''Service Unavailable'',
                          body_json = Inl (Error ''Unexpected token S'') \<rparr>
      else Inr \<lparr> status = 200, body_text = Inr ''{}'', body_json = Inr (JObj []) \<rparr>)"

definition refused :: "nat \<Rightarrow> js_error + response" where
  "refused i = Inl (Error ''fetch failed'')"

definition unauthorized :: "nat \<Rightarrow> js_error + response" where
  "unauthorized i =
     Inr \<lparr> status = 401, body_text = Inr ''unauthorized'',
           body_json = Inr (JObj [(''error'', JStr ''No API key provided'')]) \<rparr>"

definition parse_end_frame :: parse_fn where
  \<open>parse_end_frame s =
     (if s = ''{"type": "end"}'' then Inr (JObj [(''type'', JStr ''end'')])
      else Inl (Error ''Unexpected end of JSON input''))\<close>

definition gemini_down :: gemini_fn where
  "gemini_down = (\<lambda>apiKey model contents. Inl (Error ''fetch failed''))"

definition vision_down :: vision_fn where
  "vision_down = (\<lambda>credentials image. Inl (Error ''UNAVAILABLE''))"

definition no_env :: worker_env where
  "no_env = \<lparr> GEMINI_API_KEY = None, GOOGLE_CREDENTIALS = None \<rparr>"

definition key_env :: worker_env where
  "key_env = \<lparr> GEMINI_API_KEY = Some ''AIza'', GOOGLE_CREDENTIALS = None \<rparr>"

definition full_form :: form_data where
  "full_form =
     [(''userImage'', FFile room), (''productImage1'', FFile blinds),
      (''prompt'', FString ''Add white blinds'')]"

definition get_request :: "string \<Rightarrow> http_request" where
  "get_request p =
     \<lparr> req_method = GET, req_path = p,
       req_formData = Inl (Error ''Content-Type was not one of multipart/form-data'') \<rparr>"

text \<open>
  The response with a status and the body \<^verbatim>\<open>{error: msg}\<close>, and the names of the
  top-level members of a JSON body.
\<close>

definition failure :: "nat \<Rightarrow> string \<Rightarrow> http_response" where
  "failure st msg = \<lparr> http_status = st, http_body = Json (JObj [(''error'', JStr msg)]) \<rparr>"

definition top_level_keys :: "resp_body \<Rightarrow> string list" where
  "top_level_keys b = (case b of Json (JObj members) \<Rightarrow> map fst members | _ \<Rightarrow> [])"

text \<open>
  The answer of the \<^verbatim>\<open>catch\<close> branch of \<^verbatim>\<open>POST /generate\<close> with a given \<^verbatim>\<open>details\<close> text, and
  the four validations of that handler passed: both images are files, the prompt is a
  string that is not empty, and the key is set and not empty.
\<close>

definition generation_failed :: "string \<Rightarrow> http_response" where
  "generation_failed d =
     \<lparr> http_status = 500,
       http_body = Json (JObj [(''error'', JStr ''Failed to generate image''),
                               (''details'', JStr d)]) \<rparr>"

definition validated ::
  "form_data \<Rightarrow> worker_env \<Rightarrow> js_file \<Rightarrow> js_file \<Rightarrow> string \<Rightarrow> string \<Rightarrow> bool" where
  "validated fd env u p1 prompt apiKey =
     (form_get fd ''userImage'' = Some (FFile u) \<and>
      form_get fd ''productImage1'' = Some (FFile p1) \<and>
      form_get fd ''prompt'' = Some (FString prompt) \<and> prompt \<noteq> [] \<and>
      GEMINI_API_KEY env = Some apiKey \<and> apiKey \<noteq> [])"

definition unreadable :: js_file where
  "unreadable =
     \<lparr> file_name = ''gone.jpg'', file_type = ''image/jpeg'',
       file_base64 = Inl (Error ''The requested file could not be read'') \<rparr>"

definition empty_prompt_form :: form_data where
  "empty_prompt_form =
     [(''userImage'', FFile room), (''productImage1'', FFile blinds),
      (''prompt'', FString [])]"

definition user_unreadable_form :: form_data where
  "user_unreadable_form =
     [(''userImage'', FFile unreadable), (''productImage1'', FFile blinds),
      (''prompt'', FString ''Add white blinds'')]"

definition product1_unreadable_form :: form_data where
  "product1_unreadable_form =
     [(''userImage'', FFile room), (''productImage1'', FFile unreadable),
      (''prompt'', FString ''Add white blinds'')]"

definition product2_unreadable_form :: form_data where
  "product2_unreadable_form =
     [(''userImage'', FFile room), (''productImage1'', FFile blinds),
      (''productImage2'', FFile unreadable), (''prompt'', FString ''Add white blinds'')]"

definition two_products_form :: form_data where
  "two_products_form =
     [(''userImage'', FFile room), (''productImage1'', FFile blinds),
      (''productImage2'', FFile drapes), (''prompt'', FString ''Add white blinds'')]"


section \<open>The services layer: what request dispatches and returns\<close>

lemma spread_key_cases: "spread_key b v = (if v = Absent then b else v)"
  by (cases v) simp_all

lemma request_dispatched:
  "snd (request fetch endpoint options) = [(API_BASE @ endpoint, request_init_of options)]"
  by (simp add: request_def Let_def split: sum.splits)

lemma request_init_of_None: "request_init_of None = default_init"
  by (simp add: request_init_of_def spread_def options_headers_def default_init_def)

lemma headers_request_init_of:
  "headers (request_init_of (Some opts)) =
     (if headers opts = Absent then Value [''Content-Type'' \<mapsto> ''application/json'']
      else headers opts)"
  by (simp add: request_init_of_def spread_def options_headers_def spread_key_cases)

text \<open>
  Claim C1, as the code has it. The claim says that \<^verbatim>\<open>request\<close> hands a response with a
  status outside 200 to 299 back to its caller without throwing. The code throws there:
  at a 404 answer the call ends in an \<^verbatim>\<open>ApiError\<close>.
\<close>

theorem request_non_2xx_counterexample:
  "fst (request (fetch_always not_found_response) ''/'' None)
     = Inl (ApiError 404 ''404 Not Found'')"
  by (simp add: request_def check_response_def ok_def Let_def fetch_always_def
                not_found_response_def)

text \<open>
  Claim C1, amended: whenever \<^verbatim>\<open>fetch\<close> resolves to a response, \<^verbatim>\<open>request\<close> returns the
  parsed body if the status is in 200 to 299, and otherwise throws an \<^verbatim>\<open>ApiError\<close> that
  carries the raw status and the body text (or \<^verbatim>\<open>API error: <status>\<close> when the text
  cannot be read). A rejection of \<^verbatim>\<open>fetch\<close>, the connection-level failure, is thrown on
  unchanged.
\<close>

theorem request_outcome:
  "(fetch (API_BASE @ endpoint) (request_init_of options) = Inr res \<longrightarrow>
      fst (request fetch endpoint options) =
        (if 200 \<le> status res \<and> status res \<le> 299 then body_json res
         else Inl (ApiError (status res)
                (case body_text res of
                   Inr t \<Rightarrow> t
                 | Inl e \<Rightarrow> ''API error: '' @ show_nat (status res)))))
   \<and> (fetch (API_BASE @ endpoint) (request_init_of options) = Inl err \<longrightarrow>
      fst (request fetch endpoint options) = Inl err)"
  by (simp add: request_def check_response_def ok_def Let_def)

theorem request_outcome_witness:
  "fetch_always unreadable_response (API_BASE @ ''/products/'') (request_init_of None)
     = Inr unreadable_response
   \<and> fst (request (fetch_always unreadable_response) ''/products/'' None)
     = Inl (ApiError 503 ''API error: 503'')
   \<and> fetch_refused (API_BASE @ ''/products/'') (request_init_of None)
     = Inl (Error ''Failed to fetch'')
   \<and> fst (request fetch_refused ''/products/'' None) = Inl (Error ''Failed to fetch'')"
proof -
  have resolved:
    "fetch_always unreadable_response (API_BASE @ ''/products/'') (request_init_of None)
       = Inr unreadable_response"
    by (simp add: fetch_always_def)
  have rejected:
    "fetch_refused (API_BASE @ ''/products/'') (request_init_of None)
       = Inl (Error ''Failed to fetch'')"
    by (simp add: fetch_refused_def)
  have "fst (request (fetch_always unreadable_response) ''/products/'' None)
          = Inl (ApiError 503 ''API error: 503'')"
    using resolved
      request_outcome [of "fetch_always unreadable_response" "''/products/''" None
                          unreadable_response]
    by (simp add: unreadable_response_def show_nat_def digits.simps digit_def)
  moreover have "fst (request fetch_refused ''/products/'' None) = Inl (Error ''Failed to fetch'')"
    using rejected
      request_outcome [of fetch_refused "''/products/''" None _ "Error ''Failed to fetch''"]
    by simp
  ultimately show ?thesis
    using resolved rejected by simp
qed

text \<open>
  Claim C5, as the code has it. The claim says that every request of the client carries
  \<^verbatim>\<open>x-api-key\<close> and \<^verbatim>\<open>x-tenant-id\<close>. The request that \<^verbatim>\<open>api.main()\<close> dispatches
  carries neither.
\<close>

theorem api_main_credentials_counterexample:
  "map (\<lambda>(url, init). (url, header_of init ''x-api-key'', header_of init ''x-tenant-id''))
       (snd (api_main fetch_refused))
     = [(''/api/'', None, None)]"
  by (simp add: api_main_def request_dispatched request_init_of_None default_init_def
                header_of_def API_BASE_def)

text \<open>
  Claim C5, amended: the client adds no credential header of its own. A request sent
  through \<^verbatim>\<open>request\<close> carries \<^verbatim>\<open>x-api-key\<close> or \<^verbatim>\<open>x-tenant-id\<close> exactly when the caller's
  \<^verbatim>\<open>options.headers\<close> has it, with the caller's value; \<^verbatim>\<open>api.main\<close>, \<^verbatim>\<open>api.products\<close>,
  \<^verbatim>\<open>api.discovery\<close> and \<^verbatim>\<open>api.chat\<close> pass no options and dispatch one request whose only
  header is \<^verbatim>\<open>Content-Type: application/json\<close>; \<^verbatim>\<open>api.analyzeImage\<close> and
  \<^verbatim>\<open>api.generateImage\<close> dispatch one request without a \<^verbatim>\<open>headers\<close> key.
\<close>

theorem client_headers:
  "map (\<lambda>(url, init). (header_of init ''x-api-key'', header_of init ''x-tenant-id''))
       (snd (request fetch endpoint options))
     = [(options_header options ''x-api-key'', options_header options ''x-tenant-id'')]
   \<and> snd (api_main fetch) = [(''/api/'', default_init)]
   \<and> snd (api_products fetch) = [(''/api/products/'', default_init)]
   \<and> snd (api_discovery fetch) = [(''/api/discovery/'', default_init)]
   \<and> snd (api_chat fetch) = [(''/api/chat/'', default_init)]
   \<and> map (headers \<circ> snd) (snd (analyzeImage fetch f)) = [Absent]
   \<and> map (headers \<circ> snd) (snd (generateImage fetch userImage productImages prompt)) = [Absent]"
proof -
  have "header_of (request_init_of options) name = options_header options name"
    if "name \<noteq> ''Content-Type''" for name
    using that
    by (cases options)
       (auto simp: request_init_of_None default_init_def header_of_def options_header_def
                   headers_request_init_of split: property.splits)
  then have req:
    "map (\<lambda>(url, init). (header_of init ''x-api-key'', header_of init ''x-tenant-id''))
         (snd (request fetch endpoint options))
       = [(options_header options ''x-api-key'', options_header options ''x-tenant-id'')]"
    by (simp add: request_dispatched)
  have a: "map (headers \<circ> snd) (snd (analyzeImage fetch f)) = [Absent]"
    by (simp add: analyzeImage_def Let_def split: sum.splits)
  have g: "map (headers \<circ> snd) (snd (generateImage fetch userImage productImages prompt))
             = [Absent]"
    by (simp add: generateImage_def Let_def split: sum.splits)
  show ?thesis
    using req a g
    by (simp add: api_main_def api_products_def api_discovery_def api_chat_def
                  request_dispatched request_init_of_None API_BASE_def)
qed

text \<open>
  Claim C8: the default \<^verbatim>\<open>Content-Type: application/json\<close> is what \<^verbatim>\<open>request\<close> dispatches
  when there are no options or the options have no \<^verbatim>\<open>headers\<close> key; when the options have
  the key, its value replaces the merged headers whole, so a caller's mapping without
  \<^verbatim>\<open>Content-Type\<close> goes out as it is, without a \<^verbatim>\<open>Content-Type\<close> header.
\<close>

theorem request_options_headers_replace_default:
  "map (headers \<circ> snd) (snd (request fetch endpoint None))
     = [Value [''Content-Type'' \<mapsto> ''application/json'']]
   \<and> (headers opts = Absent \<longrightarrow>
        map (headers \<circ> snd) (snd (request fetch endpoint (Some opts)))
          = [Value [''Content-Type'' \<mapsto> ''application/json'']])
   \<and> (headers opts \<noteq> Absent \<longrightarrow>
        map (headers \<circ> snd) (snd (request fetch endpoint (Some opts))) = [headers opts])
   \<and> (headers opts = Value h \<and> h ''Content-Type'' = None \<longrightarrow>
        map (\<lambda>(url, init). header_of init ''Content-Type'')
            (snd (request fetch endpoint (Some opts))) = [None])"
  by (simp add: request_dispatched request_init_of_None default_init_def
                headers_request_init_of header_of_def)

theorem request_options_headers_replace_default_witness:
  "headers accept_header_only = Value [''Accept'' \<mapsto> ''text/plain'']
   \<and> headers accept_header_only \<noteq> Absent
   \<and> [''Accept'' \<mapsto> ''text/plain''] ''Content-Type'' = None
   \<and> map (headers \<circ> snd) (snd (request fetch_refused ''/'' (Some accept_header_only)))
       = [Value [''Accept'' \<mapsto> ''text/plain'']]
   \<and> map (\<lambda>(url, init). header_of init ''Content-Type'')
          (snd (request fetch_refused ''/'' (Some accept_header_only))) = [None]
   \<and> headers post_only = Absent
   \<and> map (headers \<circ> snd) (snd (request fetch_refused ''/'' (Some post_only)))
       = [Value [''Content-Type'' \<mapsto> ''application/json'']]"
  using request_options_headers_replace_default
          [of fetch_refused "''/''" accept_header_only "[''Accept'' \<mapsto> ''text/plain'']"]
        request_options_headers_replace_default
          [of fetch_refused "''/''" post_only Map.empty]
  by (simp add: accept_header_only_def post_only_def)





section \<open>The error handling template: attempts and delays\<close>

lemma loop_3: "makeRequest_loop net (Suc (Suc (Suc 0))) c s = (ReturnUndefined, c, s)"
  by (subst makeRequest_loop.simps) (simp add: maxRetries_def)

lemma loop_2:
  "makeRequest_loop net (Suc (Suc 0)) c s =
     (case try_block (net c) of
        ServerError \<Rightarrow> (ReturnUndefined, Suc c, s @ [8000])
      | Returned j \<Rightarrow> (Return j, Suc c, s)
      | Raised e \<Rightarrow> (Throw e, Suc c, s))"
  by (subst makeRequest_loop.simps) (simp add: maxRetries_def loop_3 split: try_result.splits)

lemma loop_1:
  "makeRequest_loop net (Suc 0) c s =
     (case try_block (net c) of
        Returned j \<Rightarrow> (Return j, Suc c, s)
      | _ \<Rightarrow> makeRequest_loop net (Suc (Suc 0)) (Suc c) (s @ [4000]))"
  by (subst makeRequest_loop.simps) (simp add: maxRetries_def split: try_result.splits)

lemma loop_0:
  "makeRequest_loop net 0 c s =
     (case try_block (net c) of
        Returned j \<Rightarrow> (Return j, Suc c, s)
      | _ \<Rightarrow> makeRequest_loop net (Suc 0) (Suc c) (s @ [2000]))"
  by (subst makeRequest_loop.simps) (simp add: maxRetries_def split: try_result.splits)

text \<open>The three iterations written out: every run of the template is one of these.\<close>

lemma makeRequest_unfolded:
  "makeRequest net =
     (case try_block (net 0) of
        Returned j \<Rightarrow> (Return j, 1, [])
      | _ \<Rightarrow>
        (case try_block (net 1) of
           Returned j \<Rightarrow> (Return j, 2, [2000])
         | _ \<Rightarrow>
           (case try_block (net 2) of
              Returned j \<Rightarrow> (Return j, 3, [2000, 4000])
            | Raised e \<Rightarrow> (Throw e, 3, [2000, 4000])
            | ServerError \<Rightarrow> (ReturnUndefined, 3, [2000, 4000, 8000]))))"
proof -
  have n: "(1::nat) = Suc 0" "(2::nat) = Suc (Suc 0)" "(3::nat) = Suc (Suc (Suc 0))"
    by simp_all
  show ?thesis
    unfolding makeRequest_def n loop_0 loop_1 loop_2
    by (simp split: try_result.splits)
qed

lemma try_block_reject: "try_block (Inl e) = Raised (Rethrown e)"
  by (simp add: try_block_def)

text \<open>
  Claim C2, as the code has it. The claim puts a delay of \<^verbatim>\<open>baseDelayMs * 2^(k-2)\<close> before
  attempt \<open>k\<close>, so the base delay before the second attempt. The template's base is the
  constant 1000 and it sleeps \<^verbatim>\<open>Math.pow(2, attempt) * 1000\<close> after incrementing
  \<^verbatim>\<open>attempt\<close>: with two answers 503 and then a 200 it returns at the third attempt after
  sleeping 2000 and 4000 milliseconds, not 1000 and 2000.
\<close>

theorem makeRequest_delays_counterexample:
  "makeRequest unavailable_twice = (Return (JObj []), 3, [2000, 4000])
   \<and> delays (makeRequest unavailable_twice) ! (2 - 2) \<noteq> 1000 * 2 ^ (2 - 2)"
  by (simp add: makeRequest_unfolded unavailable_twice_def try_block_def ok_def delays_def)

text \<open>
  Claim C2, amended: in every run of the template, the delay slept before attempt \<open>k\<close>
  (counted from 1, \<open>k \<ge> 2\<close>) is \<open>1000 * 2^(k-1)\<close> milliseconds, that is 2000 before the
  second attempt and 4000 before the third; and when all three attempts fail at the
  connection level, the error of the last attempt is thrown to the caller after exactly
  three attempts.
\<close>

theorem makeRequest_backoff:
  "(2 \<le> k \<and> k \<le> attempts (makeRequest net) \<longrightarrow>
      k - 2 < length (delays (makeRequest net)) \<and>
      delays (makeRequest net) ! (k - 2) = 1000 * 2 ^ (k - 1))
   \<and> (net 0 = Inl e0 \<and> net 1 = Inl e1 \<and> net 2 = Inl e2 \<longrightarrow>
        makeRequest net = (Throw (Rethrown e2), 3, [2000, 4000]))"
proof (intro conjI impI)
  assume k: "2 \<le> k \<and> k \<le> attempts (makeRequest net)"
  have "attempts (makeRequest net) \<le> 3"
    by (simp add: makeRequest_unfolded attempts_def split: try_result.splits)
  with k have k23: "k = 2 \<or> k = 3" by arith
  then show "k - 2 < length (delays (makeRequest net))"
    using k by (auto simp: makeRequest_unfolded attempts_def delays_def split: try_result.splits)
  from k23 show "delays (makeRequest net) ! (k - 2) = 1000 * 2 ^ (k - 1)"
    using k by (auto simp: makeRequest_unfolded attempts_def delays_def split: try_result.splits)
next
  assume "net 0 = Inl e0 \<and> net 1 = Inl e1 \<and> net 2 = Inl e2"
  then show "makeRequest net = (Throw (Rethrown e2), 3, [2000, 4000])"
    by (simp add: makeRequest_unfolded try_block_reject)
qed

theorem makeRequest_backoff_witness:
  "(2 \<le> (3::nat) \<and> 3 \<le> attempts (makeRequest refused))
   \<and> refused 0 = Inl (Error ''fetch failed'')
   \<and> refused 1 = Inl (Error ''fetch failed'')
   \<and> refused 2 = Inl (Error ''fetch failed'')
   \<and> delays (makeRequest refused) ! (3 - 2) = 4000
   \<and> makeRequest refused = (Throw (Rethrown (Error ''fetch failed'')), 3, [2000, 4000])"
  using makeRequest_backoff [of 3 refused "Error ''fetch failed''" "Error ''fetch failed''"
                                "Error ''fetch failed''"]
  by (simp add: refused_def attempts_def delays_def)

text \<open>
  Claim C3 at an answer 401 to every call: the template's comment says that an
  authentication error is not retried, but the \<^verbatim>\<open>throw\<close> is inside the \<^verbatim>\<open>try\<close> block, so
  the \<^verbatim>\<open>catch\<close> of the same iteration receives it, sleeps and goes round again. The error
  reaches the caller after three attempts and delays of 2000 and 4000 milliseconds.
\<close>

theorem makeRequest_retries_auth_failure:
  "makeRequest unauthorized
     = (Throw (NewError (JStr ''Authentication failed'')), 3, [2000, 4000])"
  by (simp add: makeRequest_unfolded unauthorized_def try_block_def ok_def)


section \<open>The streaming template: frames and reads\<close>

text \<open>
  Claim C4 at a frame split across two reads. The template splits each read on its own
  and keeps nothing between reads. With the frame \<^verbatim>\<open>data: {"type": "end"}\<close> cut inside
  its prefix, neither piece starts with \<^verbatim>\<open>data: \<close> and nothing is shown, whatever
  \<^verbatim>\<open>JSON.parse\<close> does; delivered whole in one read, the same frame shows its one event;
  cut inside the JSON text, the first piece goes to \<^verbatim>\<open>JSON.parse\<close> as it is and the
  parse error ends \<^verbatim>\<open>streamChat\<close>.
\<close>

theorem streamChat_split_frame:
  \<open>streamChat JSON_parse (Inr [Inr ''dat'', Inr ''a: {"type": "end"}\<newline>\<newline>''])
     = ([], None)
   \<and> (JSON_parse ''{"type": "end"}'' = Inr (JObj [(''type'', JStr ''end'')]) \<longrightarrow>
        streamChat JSON_parse (Inr [Inr ''data: {"type": "end"}\<newline>\<newline>''])
          = ([ConsoleLog ''\<newline>[Stream ended]''], None))
   \<and> (JSON_parse ''{"type": '' = Inl e \<longrightarrow>
        streamChat JSON_parse (Inr [Inr ''data: {"type": '', Inr ''"end"}\<newline>\<newline>''])
          = ([], Some e))\<close>
  by (simp add: streamChat_def handle_line_def)

theorem streamChat_split_frame_witness:
  \<open>parse_end_frame ''{"type": "end"}'' = Inr (JObj [(''type'', JStr ''end'')])
   \<and> parse_end_frame ''{"type": '' = Inl (Error ''Unexpected end of JSON input'')
   \<and> streamChat parse_end_frame (Inr [Inr ''data: {"type": "end"}\<newline>\<newline>''])
       = ([ConsoleLog ''\<newline>[Stream ended]''], None)
   \<and> streamChat parse_end_frame (Inr [Inr ''data: {"type": '', Inr ''"end"}\<newline>\<newline>''])
       = ([], Some (Error ''Unexpected end of JSON input''))\<close>
  using streamChat_split_frame [of parse_end_frame "Error ''Unexpected end of JSON input''"]
  by (simp add: parse_end_frame_def)


section \<open>The worker: routes and error responses\<close>

lemma app_routes_eq:
  "app_routes =
     [(GET, ''/api/products/'', Static (JObj [(''message'', JStr ''So many products!'')])),
      (GET, ''/api/discovery/'', Static (JObj [(''message'', JStr ''Lets discover!'')])),
      (GET, ''/api/chat/'', Static (JObj [(''message'', JStr ''Lets chat!'')])),
      (POST, ''/api/nano-banana/generate'', Generate),
      (GET, ''/api/'', Static (JObj [(''name'', JStr ''Goto Demo API'')]))]"
  by (simp add: app_routes_def route_def mergePath_def products_def discovery_def chat_def
                nanoBanana_def)

text \<open>
  Claim C7, as the code has it. The claim says that \<^verbatim>\<open>GET /health\<close> returns
  \<^verbatim>\<open>{"status": "ok"}\<close>. The worker registers no such route: the request matches nothing
  and gets the framework's 404 answer.
\<close>

theorem health_counterexample:
  "fst (app gemini_down no_env (get_request ''/health''))
     = \<lparr> http_status = 404, http_body = Text ''404 Not Found'' \<rparr>"
  by (simp add: app_def app_routes_eq get_request_def notFound_def)

text \<open>
  Claim C7, amended: the worker answers a \<^verbatim>\<open>GET\<close> request, whatever its headers, with a
  fixed JSON object at exactly four paths: \<^verbatim>\<open>/api/\<close> gives \<^verbatim>\<open>{name: "Goto Demo API"}\<close>,
  and \<^verbatim>\<open>/api/products/\<close>, \<^verbatim>\<open>/api/discovery/\<close> and \<^verbatim>\<open>/api/chat/\<close> give their
  \<^verbatim>\<open>message\<close>. A \<^verbatim>\<open>GET\<close> at any other path, \<^verbatim>\<open>/health\<close> among them, matches no route and
  is answered 404. No \<^verbatim>\<open>GET\<close> reaches the Gemini API.
\<close>

theorem app_get:
  "req_method req = GET \<longrightarrow>
   app generateContent env req =
     (if req_path req = ''/api/'' then
        (\<lparr> http_status = 200, http_body = Json (JObj [(''name'', JStr ''Goto Demo API'')]) \<rparr>, [])
      else if req_path req = ''/api/products/'' then
        (\<lparr> http_status = 200,
            http_body = Json (JObj [(''message'', JStr ''So many products!'')]) \<rparr>, [])
      else if req_path req = ''/api/discovery/'' then
        (\<lparr> http_status = 200,
            http_body = Json (JObj [(''message'', JStr ''Lets discover!'')]) \<rparr>, [])
      else if req_path req = ''/api/chat/'' then
        (\<lparr> http_status = 200, http_body = Json (JObj [(''message'', JStr ''Lets chat!'')]) \<rparr>, [])
      else (\<lparr> http_status = 404, http_body = Text ''404 Not Found'' \<rparr>, []))"
  by (simp add: app_def app_routes_eq c_json_def notFound_def)

theorem app_get_witness:
  "req_method (get_request ''/api/'') = GET
   \<and> app gemini_down no_env (get_request ''/api/'')
       = (\<lparr> http_status = 200, http_body = Json (JObj [(''name'', JStr ''Goto Demo API'')]) \<rparr>,
          [])"
  using app_get [of "get_request ''/api/''" gemini_down no_env]
  by (simp add: get_request_def)

lemma as_file_None: "(as_file v = None) = (\<forall>f. v \<noteq> Some (FFile f))"
  by (cases v rule: as_file.cases) simp_all

lemma as_string_None: "(as_string v = None) = (\<forall>s. v = Some (FString s) \<longrightarrow> s = [])"
  by (cases v rule: as_string.cases) simp_all

lemma truthy_string_None: "(truthy_string k = None) = (k = None \<or> k = Some [])"
  by (auto simp: truthy_string_def split: option.splits)

lemma extract_image_status:
  "http_status (extract_image r) = 200 \<or>
   (http_status (extract_image r) = 500 \<and>
    (\<exists>msg. http_body (extract_image r) = Json (JObj [(''error'', JStr msg)])))"
  by (simp add: extract_image_def no_image_generated_def c_json_def error_body_def
           split: option.splits list.splits prod.splits)

lemma generate_cases:
  "http_status (fst (generate g env fd)) = 200
   \<or> (http_status (fst (generate g env fd)) \<in> {400, 500}
       \<and> (\<exists>msg. http_body (fst (generate g env fd)) = Json (JObj [(''error'', JStr msg)])))
   \<or> (http_status (fst (generate g env fd)) = 500
       \<and> (\<exists>msg d. http_body (fst (generate g env fd))
                    = Json (JObj [(''error'', JStr msg), (''details'', JStr d)])))"
  using extract_image_status
  by (auto simp: generate_def generate_failed_def c_json_def error_body_def Let_def
           split: sum.splits option.splits)

lemma analyze_cases:
  "http_status (analyze p v env fd) = 200
   \<or> (http_status (analyze p v env fd) \<in> {400, 500}
       \<and> (\<exists>msg. http_body (analyze p v env fd) = Json (JObj [(''error'', JStr msg)])))
   \<or> (http_status (analyze p v env fd) = 500
       \<and> (\<exists>msg d. http_body (analyze p v env fd)
                    = Json (JObj [(''error'', JStr msg), (''details'', JStr d)])))"
  by (auto simp: analyze_def analyze_failed_def c_json_def error_body_def
           split: sum.splits option.splits)

lemma generate_total:
  "http_status (fst (generate g env x)) \<in> {200, 400, 500}
   \<and> (http_status (fst (generate g env x)) \<noteq> 200 \<longrightarrow>
        (\<exists>members msg. http_body (fst (generate g env x))
                          = Json (JObj ((''error'', JStr msg) # members))))"
  using generate_cases [of g env x] by auto

lemma generate_sdk_throws:
  "snd (generate g env x) = [(k, m, cps)] \<Longrightarrow> g k m cps = Inl e \<Longrightarrow>
   fst (generate g env x) =
     \<lparr> http_status = 500,
       http_body = Json (JObj [(''error'', JStr ''Failed to generate image''),
                               (''details'', JStr (details e))]) \<rparr>"
  by (auto simp: generate_def generate_failed_def c_json_def Let_def
           split: sum.splits option.splits)

lemma generate_gemini_down:
  "generate gemini_down key_env (Inr full_form) =
     (\<lparr> http_status = 500,
         http_body = Json (JObj [(''error'', JStr ''Failed to generate image''),
                                 (''details'', JStr ''fetch failed'')]) \<rparr>,
      [(''AIza'', ''gemini-2.5-flash-image'',
        [InlineData ''image/jpeg'' ''/9j/4AAQ'', InlineData ''image/png'' ''iVBORw0K'',
         TextPart ''Add white blinds''])])"
  by (simp add: generate_def gemini_down_def key_env_def full_form_def form_get_def
                truthy_string_def content_parts_def inline_part_def or_else_def room_def
                blinds_def generate_failed_def c_json_def Let_def)

text \<open>
  Claim C6, as the code has it. The claim allows an error body the two shapes
  \<^verbatim>\<open>{error: string}\<close> and \<^verbatim>\<open>{error: {status, code, message}}\<close> and no sibling field.
  When the Gemini call throws, the handler of \<^verbatim>\<open>POST /generate\<close> answers 500 with a body
  that has the two top-level members \<^verbatim>\<open>error\<close> and \<^verbatim>\<open>details\<close>.
\<close>

theorem generate_details_counterexample:
  "http_status (fst (generate gemini_down key_env (Inr full_form))) = 500
   \<and> top_level_keys (http_body (fst (generate gemini_down key_env (Inr full_form))))
       = [''error'', ''details'']"
  by (simp add: generate_gemini_down top_level_keys_def)

text \<open>
  Claim C6, amended: every response of the worker's two form handlers with a status other
  than 200 has a JSON object as its body, of one of two shapes: \<^verbatim>\<open>{error: string}\<close>, or
  \<^verbatim>\<open>{error: string, details: string}\<close> (the answer of the \<^verbatim>\<open>catch\<close> branch). The member
  \<^verbatim>\<open>error\<close> is always a string, never an object.
\<close>

theorem worker_error_bodies:
  "(http_status (fst (generate g env fd)) \<noteq> 200 \<longrightarrow>
      (\<exists>msg. http_body (fst (generate g env fd)) = Json (JObj [(''error'', JStr msg)])) \<or>
      (\<exists>msg d. http_body (fst (generate g env fd))
                  = Json (JObj [(''error'', JStr msg), (''details'', JStr d)])))
   \<and> (http_status (analyze p v env' fd') \<noteq> 200 \<longrightarrow>
      (\<exists>msg. http_body (analyze p v env' fd') = Json (JObj [(''error'', JStr msg)])) \<or>
      (\<exists>msg d. http_body (analyze p v env' fd')
                  = Json (JObj [(''error'', JStr msg), (''details'', JStr d)])))"
  using generate_cases [of g env fd] analyze_cases [of p v env' fd'] by blast

theorem worker_error_bodies_witness:
  "http_status (fst (generate gemini_down key_env (Inr full_form))) \<noteq> 200
   \<and> http_body (fst (generate gemini_down key_env (Inr full_form)))
       = Json (JObj [(''error'', JStr ''Failed to generate image''),
                     (''details'', JStr ''fetch failed'')])
   \<and> http_status (analyze parse_end_frame vision_down no_env (Inr [])) \<noteq> 200
   \<and> http_body (analyze parse_end_frame vision_down no_env (Inr []))
       = Json (JObj [(''error'', JStr ''No image file provided'')])"
  using worker_error_bodies [of gemini_down key_env "Inr full_form"
                                parse_end_frame vision_down no_env "Inr []"]
  by (simp add: generate_gemini_down analyze_def form_get_def c_json_def error_body_def)

lemma generate_failed_eq: "generate_failed e = generation_failed (details e)"
  by (simp add: generate_failed_def generation_failed_def c_json_def)

text \<open>Past the four validations, the handler is the reading of the files and the SDK call.\<close>

lemma generate_validated:
  assumes "validated fd env u p1 prompt apiKey"
  shows "generate g env (Inr fd) =
           (case content_parts u p1 (form_get fd ''productImage2'') prompt of
              Inl e \<Rightarrow> (generation_failed (details e), [])
            | Inr cps \<Rightarrow>
                (case g apiKey ''gemini-2.5-flash-image'' cps of
                   Inl e \<Rightarrow> (generation_failed (details e),
                             [(apiKey, ''gemini-2.5-flash-image'', cps)])
                 | Inr r \<Rightarrow> (extract_image r, [(apiKey, ''gemini-2.5-flash-image'', cps)])))"
proof -
  from assms obtain c cs kc kcs where "prompt = c # cs" and "apiKey = kc # kcs"
    by (cases prompt; cases apiKey) (simp_all add: validated_def)
  with assms show ?thesis
    by (simp add: validated_def generate_def truthy_string_def generate_failed_eq Let_def
             split: sum.splits)
qed

lemma content_parts_user_fails:
  "file_base64 u = Inl e \<Longrightarrow> content_parts u p1 v prompt = Inl e"
  by (simp add: content_parts_def)

lemma content_parts_product1_fails:
  "file_base64 u = Inr b \<Longrightarrow> file_base64 p1 = Inl e \<Longrightarrow> content_parts u p1 v prompt = Inl e"
  by (simp add: content_parts_def)

lemma content_parts_product2_fails:
  "file_base64 u = Inr b \<Longrightarrow> file_base64 p1 = Inr b1 \<Longrightarrow> file_base64 p2 = Inl e \<Longrightarrow>
   content_parts u p1 (Some (FFile p2)) prompt = Inl e"
  by (simp add: content_parts_def Let_def)

lemma content_parts_two:
  "file_base64 u = Inr b \<Longrightarrow> file_base64 p1 = Inr b1 \<Longrightarrow> \<forall>f. v \<noteq> Some (FFile f) \<Longrightarrow>
   content_parts u p1 v prompt =
     Inr [InlineData (if file_type u = [] then ''image/jpeg'' else file_type u) b,
          InlineData (if file_type p1 = [] then ''image/jpeg'' else file_type p1) b1,
          TextPart prompt]"
  by (simp add: content_parts_def Let_def inline_part_def or_else_def truthy_string_def
                as_file_None [symmetric])

lemma content_parts_three:
  "file_base64 u = Inr b \<Longrightarrow> file_base64 p1 = Inr b1 \<Longrightarrow> file_base64 p2 = Inr b2 \<Longrightarrow>
   content_parts u p1 (Some (FFile p2)) prompt =
     Inr [InlineData (if file_type u = [] then ''image/jpeg'' else file_type u) b,
          InlineData (if file_type p1 = [] then ''image/jpeg'' else file_type p1) b1,
          InlineData (if file_type p2 = [] then ''image/jpeg'' else file_type p2) b2,
          TextPart prompt]"
  by (simp add: content_parts_def Let_def inline_part_def or_else_def truthy_string_def)

text \<open>
  Claim C9, as the code has it. The claim gives 400 \<^verbatim>\<open>Prompt text is required\<close> to a form
  that lacks a string prompt and, otherwise, 500 \<^verbatim>\<open>Gemini API key not configured\<close> to an
  unset key. A form with both images whose prompt is the empty string has a string prompt,
  yet with the key unset the handler answers 400 \<^verbatim>\<open>Prompt text is required\<close>: its test
  \<^verbatim>\<open>!prompt\<close> takes the empty string for a missing prompt.
\<close>

theorem generate_empty_prompt_counterexample:
  "form_get empty_prompt_form ''userImage'' = Some (FFile room)
   \<and> form_get empty_prompt_form ''productImage1'' = Some (FFile blinds)
   \<and> form_get empty_prompt_form ''prompt'' = Some (FString [])
   \<and> GEMINI_API_KEY no_env = None
   \<and> generate gemini_down no_env (Inr empty_prompt_form)
       = (failure 400 ''Prompt text is required'', [])
   \<and> generate gemini_down no_env (Inr empty_prompt_form)
       \<noteq> (failure 500 ''Gemini API key not configured'', [])"
  by (simp add: generate_def empty_prompt_form_def form_get_def no_env_def failure_def
                c_json_def error_body_def)

text \<open>
  Claim C9, amended: the handler of \<^verbatim>\<open>POST /generate\<close> decides, in this order and without
  a call to the Gemini API: no \<^verbatim>\<open>userImage\<close> file gives 400 \<^verbatim>\<open>User image is required\<close>;
  otherwise no \<^verbatim>\<open>productImage1\<close> file gives 400 \<^verbatim>\<open>At least one product image is
  required\<close>; otherwise a prompt that is missing, a file or the empty string gives 400
  \<^verbatim>\<open>Prompt text is required\<close>; otherwise a key that is unset or empty gives 500
  \<^verbatim>\<open>Gemini API key not configured\<close>. Every exception is answered 500 with the body
  \<^verbatim>\<open>{error: "Failed to generate image", details}\<close>, \<^verbatim>\<open>details\<close> being its message: when
  reading the form throws; past the validations, when reading the user image, the first
  product image or the second product image throws (no call to the Gemini API is made
  then); and when the call to the Gemini API throws, with two product images or with one.
  Every run ends in a response with status 200, 400 or 500, and every response other than
  200 has a string \<^verbatim>\<open>error\<close> member.
\<close>

theorem generate_validation:
  "((\<forall>f. form_get fd ''userImage'' \<noteq> Some (FFile f)) \<longrightarrow>
      generate g env (Inr fd) = (failure 400 ''User image is required'', []))
   \<and> (form_get fd ''userImage'' = Some (FFile u) \<and>
       (\<forall>f. form_get fd ''productImage1'' \<noteq> Some (FFile f)) \<longrightarrow>
      generate g env (Inr fd) = (failure 400 ''At least one product image is required'', []))
   \<and> (form_get fd ''userImage'' = Some (FFile u) \<and>
       form_get fd ''productImage1'' = Some (FFile p1) \<and>
       (\<forall>s. form_get fd ''prompt'' = Some (FString s) \<longrightarrow> s = []) \<longrightarrow>
      generate g env (Inr fd) = (failure 400 ''Prompt text is required'', []))
   \<and> (form_get fd ''userImage'' = Some (FFile u) \<and>
       form_get fd ''productImage1'' = Some (FFile p1) \<and>
       form_get fd ''prompt'' = Some (FString (c # cs)) \<and>
       (GEMINI_API_KEY env = None \<or> GEMINI_API_KEY env = Some []) \<longrightarrow>
      generate g env (Inr fd) = (failure 500 ''Gemini API key not configured'', []))
   \<and> generate g env (Inl e) =
        (\<lparr> http_status = 500,
            http_body = Json (JObj [(''error'', JStr ''Failed to generate image''),
                                    (''details'', JStr (details e))]) \<rparr>, [])
   \<and> (snd (generate g env x) = [(k, m, cps)] \<and> g k m cps = Inl e' \<longrightarrow>
      fst (generate g env x) =
        \<lparr> http_status = 500,
          http_body = Json (JObj [(''error'', JStr ''Failed to generate image''),
                                  (''details'', JStr (details e'))]) \<rparr>)
   \<and> http_status (fst (generate g env x)) \<in> {200, 400, 500}
   \<and> (http_status (fst (generate g env x)) \<noteq> 200 \<longrightarrow>
        (\<exists>members msg. http_body (fst (generate g env x))
                          = Json (JObj ((''error'', JStr msg) # members))))
   \<and> (validated fd env u p1 prompt apiKey \<and> file_base64 u = Inl err \<longrightarrow>
      generate g env (Inr fd) = (generation_failed (details err), []))
   \<and> (validated fd env u p1 prompt apiKey \<and> file_base64 u = Inr b \<and>
       file_base64 p1 = Inl err \<longrightarrow>
      generate g env (Inr fd) = (generation_failed (details err), []))
   \<and> (validated fd env u p1 prompt apiKey \<and> file_base64 u = Inr b \<and>
       file_base64 p1 = Inr b1 \<and> form_get fd ''productImage2'' = Some (FFile p2) \<and>
       file_base64 p2 = Inl err \<longrightarrow>
      generate g env (Inr fd) = (generation_failed (details err), []))
   \<and> (validated fd env u p1 prompt apiKey \<and> file_base64 u = Inr b \<and>
       file_base64 p1 = Inr b1 \<and> (\<forall>f. form_get fd ''productImage2'' \<noteq> Some (FFile f)) \<and>
       g apiKey ''gemini-2.5-flash-image''
         [InlineData (if file_type u = [] then ''image/jpeg'' else file_type u) b,
          InlineData (if file_type p1 = [] then ''image/jpeg'' else file_type p1) b1,
          TextPart prompt] = Inl err \<longrightarrow>
      generate g env (Inr fd) =
        (generation_failed (details err),
         [(apiKey, ''gemini-2.5-flash-image'',
           [InlineData (if file_type u = [] then ''image/jpeg'' else file_type u) b,
            InlineData (if file_type p1 = [] then ''image/jpeg'' else file_type p1) b1,
            TextPart prompt])]))
   \<and> (validated fd env u p1 prompt apiKey \<and> file_base64 u = Inr b \<and>
       file_base64 p1 = Inr b1 \<and> form_get fd ''productImage2'' = Some (FFile p2) \<and>
       file_base64 p2 = Inr b2 \<and>
       g apiKey ''gemini-2.5-flash-image''
         [InlineData (if file_type u = [] then ''image/jpeg'' else file_type u) b,
          InlineData (if file_type p1 = [] then ''image/jpeg'' else file_type p1) b1,
          InlineData (if file_type p2 = [] then ''image/jpeg'' else file_type p2) b2,
          TextPart prompt] = Inl err \<longrightarrow>
      generate g env (Inr fd) =
        (generation_failed (details err),
         [(apiKey, ''gemini-2.5-flash-image'',
           [InlineData (if file_type u = [] then ''image/jpeg'' else file_type u) b,
            InlineData (if file_type p1 = [] then ''image/jpeg'' else file_type p1) b1,
            InlineData (if file_type p2 = [] then ''image/jpeg'' else file_type p2) b2,
            TextPart prompt])]))"
proof (intro conjI impI)
  assume "\<forall>f. form_get fd ''userImage'' \<noteq> Some (FFile f)"
  then have "as_file (form_get fd ''userImage'') = None"
    by (simp add: as_file_None)
  then show "generate g env (Inr fd) = (failure 400 ''User image is required'', [])"
    by (simp add: generate_def failure_def c_json_def error_body_def)
next
  assume "form_get fd ''userImage'' = Some (FFile u) \<and>
          (\<forall>f. form_get fd ''productImage1'' \<noteq> Some (FFile f))"
  then have "as_file (form_get fd ''userImage'') = Some u"
    and "as_file (form_get fd ''productImage1'') = None"
    by (simp_all add: as_file_None)
  then show "generate g env (Inr fd)
               = (failure 400 ''At least one product image is required'', [])"
    by (simp add: generate_def failure_def c_json_def error_body_def)
next
  assume "form_get fd ''userImage'' = Some (FFile u) \<and>
          form_get fd ''productImage1'' = Some (FFile p1) \<and>
          (\<forall>s. form_get fd ''prompt'' = Some (FString s) \<longrightarrow> s = [])"
  then have "as_file (form_get fd ''userImage'') = Some u"
    and "as_file (form_get fd ''productImage1'') = Some p1"
    and "as_string (form_get fd ''prompt'') = None"
    by (simp_all add: as_string_None)
  then show "generate g env (Inr fd) = (failure 400 ''Prompt text is required'', [])"
    by (simp add: generate_def failure_def c_json_def error_body_def)
next
  assume a: "form_get fd ''userImage'' = Some (FFile u) \<and>
             form_get fd ''productImage1'' = Some (FFile p1) \<and>
             form_get fd ''prompt'' = Some (FString (c # cs)) \<and>
             (GEMINI_API_KEY env = None \<or> GEMINI_API_KEY env = Some [])"
  then have "truthy_string (GEMINI_API_KEY env) = None"
    by (simp add: truthy_string_None)
  with a show "generate g env (Inr fd) = (failure 500 ''Gemini API key not configured'', [])"
    by (simp add: generate_def failure_def c_json_def error_body_def)
next
  show "generate g env (Inl e) =
        (\<lparr> http_status = 500,
            http_body = Json (JObj [(''error'', JStr ''Failed to generate image''),
                                    (''details'', JStr (details e))]) \<rparr>, [])"
    by (simp add: generate_def generate_failed_def c_json_def)
next
  assume "snd (generate g env x) = [(k, m, cps)] \<and> g k m cps = Inl e'"
  then show "fst (generate g env x) =
        \<lparr> http_status = 500,
          http_body = Json (JObj [(''error'', JStr ''Failed to generate image''),
                                  (''details'', JStr (details e'))]) \<rparr>"
    using generate_sdk_throws by blast
next
  show "http_status (fst (generate g env x)) \<in> {200, 400, 500}"
    using generate_total by blast
next
  assume "http_status (fst (generate g env x)) \<noteq> 200"
  then show "\<exists>members msg. http_body (fst (generate g env x))
                          = Json (JObj ((''error'', JStr msg) # members))"
    using generate_total by blast
next
  assume "validated fd env u p1 prompt apiKey \<and> file_base64 u = Inl err"
  then show "generate g env (Inr fd) = (generation_failed (details err), [])"
    using generate_validated [of fd env u p1 prompt apiKey g] content_parts_user_fails [of u err p1]
    by simp
next
  assume "validated fd env u p1 prompt apiKey \<and> file_base64 u = Inr b \<and>
          file_base64 p1 = Inl err"
  then show "generate g env (Inr fd) = (generation_failed (details err), [])"
    using generate_validated [of fd env u p1 prompt apiKey g] content_parts_product1_fails [of u b p1 err]
    by simp
next
  assume "validated fd env u p1 prompt apiKey \<and> file_base64 u = Inr b \<and>
          file_base64 p1 = Inr b1 \<and> form_get fd ''productImage2'' = Some (FFile p2) \<and>
          file_base64 p2 = Inl err"
  then show "generate g env (Inr fd) = (generation_failed (details err), [])"
    using generate_validated [of fd env u p1 prompt apiKey g] content_parts_product2_fails [of u b p1 b1 p2 err prompt]
    by simp
next
  assume a: "validated fd env u p1 prompt apiKey \<and> file_base64 u = Inr b \<and>
       file_base64 p1 = Inr b1 \<and> (\<forall>f. form_get fd ''productImage2'' \<noteq> Some (FFile f)) \<and>
       g apiKey ''gemini-2.5-flash-image''
         [InlineData (if file_type u = [] then ''image/jpeg'' else file_type u) b,
          InlineData (if file_type p1 = [] then ''image/jpeg'' else file_type p1) b1,
          TextPart prompt] = Inl err"
  then have "content_parts u p1 (form_get fd ''productImage2'') prompt =
     Inr [InlineData (if file_type u = [] then ''image/jpeg'' else file_type u) b,
          InlineData (if file_type p1 = [] then ''image/jpeg'' else file_type p1) b1,
          TextPart prompt]"
    using content_parts_two [of u b p1 b1 "form_get fd ''productImage2''" prompt] by blast
  with a show "generate g env (Inr fd) =
        (generation_failed (details err),
         [(apiKey, ''gemini-2.5-flash-image'',
           [InlineData (if file_type u = [] then ''image/jpeg'' else file_type u) b,
            InlineData (if file_type p1 = [] then ''image/jpeg'' else file_type p1) b1,
            TextPart prompt])])"
    using generate_validated [of fd env u p1 prompt apiKey g] by simp
next
  assume a: "validated fd env u p1 prompt apiKey \<and> file_base64 u = Inr b \<and>
       file_base64 p1 = Inr b1 \<and> form_get fd ''productImage2'' = Some (FFile p2) \<and>
       file_base64 p2 = Inr b2 \<and>
       g apiKey ''gemini-2.5-flash-image''
         [InlineData (if file_type u = [] then ''image/jpeg'' else file_type u) b,
          InlineData (if file_type p1 = [] then ''image/jpeg'' else file_type p1) b1,
          InlineData (if file_type p2 = [] then ''image/jpeg'' else file_type p2) b2,
          TextPart prompt] = Inl err"
  then have "content_parts u p1 (form_get fd ''productImage2'') prompt =
     Inr [InlineData (if file_type u = [] then ''image/jpeg'' else file_type u) b,
          InlineData (if file_type p1 = [] then ''image/jpeg'' else file_type p1) b1,
          InlineData (if file_type p2 = [] then ''image/jpeg'' else file_type p2) b2,
          TextPart prompt]"
    using content_parts_three [of u b p1 b1 p2 b2 prompt] by simp
  with a show "generate g env (Inr fd) =
        (generation_failed (details err),
         [(apiKey, ''gemini-2.5-flash-image'',
           [InlineData (if file_type u = [] then ''image/jpeg'' else file_type u) b,
            InlineData (if file_type p1 = [] then ''image/jpeg'' else file_type p1) b1,
            InlineData (if file_type p2 = [] then ''image/jpeg'' else file_type p2) b2,
            TextPart prompt])])"
    using generate_validated [of fd env u p1 prompt apiKey g] by simp
qed

theorem generate_validation_witness:
  "(\<forall>f. form_get [] ''userImage'' \<noteq> Some (FFile f))
   \<and> generate gemini_down key_env (Inr []) = (failure 400 ''User image is required'', [])
   \<and> form_get [(''userImage'', FFile room)] ''userImage'' = Some (FFile room)
   \<and> (\<forall>f. form_get [(''userImage'', FFile room)] ''productImage1'' \<noteq> Some (FFile f))
   \<and> generate gemini_down key_env (Inr [(''userImage'', FFile room)])
       = (failure 400 ''At least one product image is required'', [])
   \<and> form_get empty_prompt_form ''productImage1'' = Some (FFile blinds)
   \<and> form_get empty_prompt_form ''prompt'' = Some (FString [])
   \<and> generate gemini_down no_env (Inr empty_prompt_form)
       = (failure 400 ''Prompt text is required'', [])
   \<and> form_get full_form ''prompt'' = Some (FString ''Add white blinds'')
   \<and> GEMINI_API_KEY no_env = None
   \<and> generate gemini_down no_env (Inr full_form)
       = (failure 500 ''Gemini API key not configured'', [])
   \<and> snd (generate gemini_down key_env (Inr full_form))
       = [(''AIza'', ''gemini-2.5-flash-image'',
           [InlineData ''image/jpeg'' ''/9j/4AAQ'', InlineData ''image/png'' ''iVBORw0K'',
            TextPart ''Add white blinds''])]
   \<and> fst (generate gemini_down key_env (Inr full_form))
       = \<lparr> http_status = 500,
           http_body = Json (JObj [(''error'', JStr ''Failed to generate image''),
                                   (''details'', JStr ''fetch failed'')]) \<rparr>
   \<and> http_status (fst (generate gemini_down key_env (Inr full_form))) \<noteq> 200
   \<and> validated user_unreadable_form key_env unreadable blinds ''Add white blinds'' ''AIza''
   \<and> file_base64 unreadable = Inl (Error ''The requested file could not be read'')
   \<and> generate gemini_down key_env (Inr user_unreadable_form)
       = (generation_failed ''The requested file could not be read'', [])
   \<and> validated product1_unreadable_form key_env room unreadable ''Add white blinds'' ''AIza''
   \<and> generate gemini_down key_env (Inr product1_unreadable_form)
       = (generation_failed ''The requested file could not be read'', [])
   \<and> validated product2_unreadable_form key_env room blinds ''Add white blinds'' ''AIza''
   \<and> form_get product2_unreadable_form ''productImage2'' = Some (FFile unreadable)
   \<and> generate gemini_down key_env (Inr product2_unreadable_form)
       = (generation_failed ''The requested file could not be read'', [])
   \<and> validated full_form key_env room blinds ''Add white blinds'' ''AIza''
   \<and> (\<forall>f. form_get full_form ''productImage2'' \<noteq> Some (FFile f))
   \<and> generate gemini_down key_env (Inr full_form)
       = (generation_failed ''fetch failed'',
          [(''AIza'', ''gemini-2.5-flash-image'',
            [InlineData ''image/jpeg'' ''/9j/4AAQ'', InlineData ''image/png'' ''iVBORw0K'',
             TextPart ''Add white blinds''])])
   \<and> validated two_products_form key_env room blinds ''Add white blinds'' ''AIza''
   \<and> form_get two_products_form ''productImage2'' = Some (FFile drapes)
   \<and> generate gemini_down key_env (Inr two_products_form)
       = (generation_failed ''fetch failed'',
          [(''AIza'', ''gemini-2.5-flash-image'',
            [InlineData ''image/jpeg'' ''/9j/4AAQ'', InlineData ''image/png'' ''iVBORw0K'',
             InlineData ''image/jpeg'' ''R0lGODlh'', TextPart ''Add white blinds''])])"
proof -
  let ?cps = "[InlineData ''image/jpeg'' ''/9j/4AAQ'', InlineData ''image/png'' ''iVBORw0K'',
               TextPart ''Add white blinds'']"
  let ?prompt = "''Add white blinds''"
  let ?gone = "Error ''The requested file could not be read''"
  have u0: "\<forall>f. form_get [] ''userImage'' \<noteq> Some (FFile f)"
    by (simp add: form_get_def)
  have u1: "form_get [(''userImage'', FFile room)] ''userImage'' = Some (FFile room)"
    and p1: "\<forall>f. form_get [(''userImage'', FFile room)] ''productImage1'' \<noteq> Some (FFile f)"
    by (simp_all add: form_get_def)
  have u2: "form_get empty_prompt_form ''userImage'' = Some (FFile room)"
    and p2: "form_get empty_prompt_form ''productImage1'' = Some (FFile blinds)"
    and e2: "form_get empty_prompt_form ''prompt'' = Some (FString [])"
    by (simp_all add: form_get_def empty_prompt_form_def)
  from e2 have q2: "\<forall>s. form_get empty_prompt_form ''prompt'' = Some (FString s) \<longrightarrow> s = []"
    by simp
  have u3: "form_get full_form ''userImage'' = Some (FFile room)"
    and p3: "form_get full_form ''productImage1'' = Some (FFile blinds)"
    and q3: "form_get full_form ''prompt'' = Some (FString ''Add white blinds'')"
    and n3: "\<forall>f. form_get full_form ''productImage2'' \<noteq> Some (FFile f)"
    by (simp_all add: form_get_def full_form_def)
  have k3: "GEMINI_API_KEY no_env = None"
    by (simp add: no_env_def)
  have c4: "snd (generate gemini_down key_env (Inr full_form))
              = [(''AIza'', ''gemini-2.5-flash-image'', ?cps)]"
    by (simp add: generate_gemini_down)
  have down: "gemini_down apiKey model contents = Inl (Error ''fetch failed'')"
    for apiKey model contents
    by (simp add: gemini_down_def)
  have reads: "file_base64 unreadable = Inl ?gone" "file_base64 room = Inr ''/9j/4AAQ''"
    "file_base64 blinds = Inr ''iVBORw0K''" "file_base64 drapes = Inr ''R0lGODlh''"
    by (simp_all add: unreadable_def room_def blinds_def drapes_def)
  have types: "file_type room = ''image/jpeg''" "file_type blinds = ''image/png''"
    "file_type drapes = []"
    by (simp_all add: room_def blinds_def drapes_def)
  have vu: "validated user_unreadable_form key_env unreadable blinds ?prompt ''AIza''"
    and v1: "validated product1_unreadable_form key_env room unreadable ?prompt ''AIza''"
    and v2: "validated product2_unreadable_form key_env room blinds ?prompt ''AIza''"
    and vf: "validated full_form key_env room blinds ?prompt ''AIza''"
    and v3: "validated two_products_form key_env room blinds ?prompt ''AIza''"
    by (simp_all add: validated_def form_get_def key_env_def user_unreadable_form_def
                      product1_unreadable_form_def product2_unreadable_form_def full_form_def
                      two_products_form_def)
  have f2: "form_get product2_unreadable_form ''productImage2'' = Some (FFile unreadable)"
    and f3: "form_get two_products_form ''productImage2'' = Some (FFile drapes)"
    by (simp_all add: form_get_def product2_unreadable_form_def two_products_form_def)
  have r0: "generate gemini_down key_env (Inr []) = (failure 400 ''User image is required'', [])"
    using u0 generate_validation [where fd = "[]" and g = gemini_down and env = key_env]
    by blast
  have r1: "generate gemini_down key_env (Inr [(''userImage'', FFile room)])
              = (failure 400 ''At least one product image is required'', [])"
    using u1 p1
      generate_validation [where fd = "[(''userImage'', FFile room)]" and g = gemini_down
                             and env = key_env and u = room]
    by blast
  have r2: "generate gemini_down no_env (Inr empty_prompt_form)
              = (failure 400 ''Prompt text is required'', [])"
    using u2 p2 q2
      generate_validation [where fd = empty_prompt_form and g = gemini_down and env = no_env
                             and u = room and ?p1.0 = blinds]
    by blast
  have r3: "generate gemini_down no_env (Inr full_form)
              = (failure 500 ''Gemini API key not configured'', [])"
    using u3 p3 q3 k3
      generate_validation [where fd = full_form and g = gemini_down and env = no_env
                             and u = room and ?p1.0 = blinds and c = "CHR ''A''"
                             and cs = "''dd white blinds''"]
    by simp
  have r4: "fst (generate gemini_down key_env (Inr full_form))
              = \<lparr> http_status = 500,
                  http_body = Json (JObj [(''error'', JStr ''Failed to generate image''),
                                          (''details'', JStr ''fetch failed'')]) \<rparr>"
    using c4 down
      generate_validation [where g = gemini_down and env = key_env and x = "Inr full_form"
                             and k = "''AIza''" and m = "''gemini-2.5-flash-image''"
                             and cps = ?cps and e' = "Error ''fetch failed''"]
    by simp
  have s4: "http_status (fst (generate gemini_down key_env (Inr full_form))) \<noteq> 200"
    by (simp add: r4)
  have r5: "generate gemini_down key_env (Inr user_unreadable_form)
              = (generation_failed ''The requested file could not be read'', [])"
    using vu reads
      generate_validation [where fd = user_unreadable_form and g = gemini_down
                             and env = key_env and u = unreadable and ?p1.0 = blinds
                             and prompt = ?prompt and apiKey = "''AIza''" and err = ?gone]
    by simp
  have r6: "generate gemini_down key_env (Inr product1_unreadable_form)
              = (generation_failed ''The requested file could not be read'', [])"
    using v1 reads
      generate_validation [where fd = product1_unreadable_form and g = gemini_down
                             and env = key_env and u = room and ?p1.0 = unreadable
                             and prompt = ?prompt and apiKey = "''AIza''" and err = ?gone
                             and b = "''/9j/4AAQ''"]
    by simp
  have r7: "generate gemini_down key_env (Inr product2_unreadable_form)
              = (generation_failed ''The requested file could not be read'', [])"
    using v2 f2 reads
      generate_validation [where fd = product2_unreadable_form and g = gemini_down
                             and env = key_env and u = room and ?p1.0 = blinds
                             and prompt = ?prompt and apiKey = "''AIza''" and err = ?gone
                             and b = "''/9j/4AAQ''" and ?b1.0 = "''iVBORw0K''"
                             and ?p2.0 = unreadable]
    by simp
  have r8: "generate gemini_down key_env (Inr full_form)
              = (generation_failed ''fetch failed'',
                 [(''AIza'', ''gemini-2.5-flash-image'', ?cps)])"
    using vf n3 reads types down
      generate_validation [where fd = full_form and g = gemini_down
                             and env = key_env and u = room and ?p1.0 = blinds
                             and prompt = ?prompt and apiKey = "''AIza''"
                             and err = "Error ''fetch failed''"
                             and b = "''/9j/4AAQ''" and ?b1.0 = "''iVBORw0K''"]
    by simp
  have r9: "generate gemini_down key_env (Inr two_products_form)
              = (generation_failed ''fetch failed'',
                 [(''AIza'', ''gemini-2.5-flash-image'',
                   [InlineData ''image/jpeg'' ''/9j/4AAQ'', InlineData ''image/png'' ''iVBORw0K'',
                    InlineData ''image/jpeg'' ''R0lGODlh'', TextPart ''Add white blinds''])])"
    using v3 f3 reads types down
      generate_validation [where fd = two_products_form and g = gemini_down
                             and env = key_env and u = room and ?p1.0 = blinds
                             and prompt = ?prompt and apiKey = "''AIza''"
                             and err = "Error ''fetch failed''"
                             and b = "''/9j/4AAQ''" and ?b1.0 = "''iVBORw0K''"
                             and ?p2.0 = drapes and ?b2.0 = "''R0lGODlh''"]
    by simp
  show ?thesis
    by (intro conjI)
       (fact u0 r0 u1 p1 r1 p2 e2 r2 q3 k3 r3 c4 r4 s4 vu reads(1) r5 v1 r6 v2 f2 r7 vf n3 r8
             v3 f3 r9)+
qed

end
